theory Spec2Isabelle
  imports Complex_Main "HOL-Library.Sublist"
begin

section \<open>LinkedIn easy-apply script: the actions of find_linkedin_easy_apply.py\<close>

text \<open>
  The script registers five actions on a controller (save_jobs, read_jobs, linkedin_login,
  read_cv, upload_cv) and starts two agents that call them. The actions are embedded here
  as functions of the part of the world they touch: the process environment, the files in
  the working directory, the pages of the resume and the answers of the browser.
  A Python \<^verbatim>\<open>str\<close> is a \<^typ>\<open>string\<close>, \<^verbatim>\<open>None\<close> is \<^term>\<open>None\<close>, an
  exception that leaves a function is the \<^term>\<open>Inl\<close> side of a sum.
\<close>

subsection \<open>Characters the script's output depends on\<close>

definition CR :: char where "CR = CHR 0x0D"
definition LF :: char where "LF = CHR 0x0A"
definition DQ :: char where "DQ = CHR 0x22"
definition COMMA :: char where "COMMA = CHR 0x2C"

subsection \<open>Exceptions\<close>

text \<open>
  The exceptions that leave a function of the script. \<open>ValueError\<close> is the one raised by
  \<^verbatim>\<open>get_linkedin_credentials\<close> (its message, which says that linkedin_email or
  linkedin_password is not set, is not ASCII and is left out); \<open>FileNotFoundError\<close>
  carries the path that is missing; \<open>BaseException\<close> is an exception outside the class
  \<^verbatim>\<open>Exception\<close>, such as \<^verbatim>\<open>asyncio.CancelledError\<close>, with its class name.
\<close>

datatype py_exception = ValueError | FileNotFoundError string | BaseException string

subsection \<open>The job record store\<close>

text \<open>
  \<^verbatim>\<open>class Job(BaseModel)\<close>: four required fields and two optional ones. The fit score is a
  Python float; the script never computes with it, so a real number stands for it.
\<close>

record Job =
  title :: string
  link :: string
  company :: string
  fit_score :: real
  location :: "string option"
  salary :: "string option"

text \<open>The files of the working directory: a path has a text content, or there is no file.\<close>

type_synonym filesystem = "string \<rightharpoonup> string"

text \<open>
  \<^verbatim>\<open>csv.writer(f).writerow(row)\<close> in the default (excel) dialect: delimiter comma, quote
  character double quote, \<^verbatim>\<open>doublequote=True\<close>, \<^verbatim>\<open>QUOTE_MINIMAL\<close>, line terminator
  \<^verbatim>\<open>\r\n\<close>. A field is quoted when it holds the delimiter, the quote character or a
  character of the line terminator; inside quotes a quote character is doubled.
  \<^verbatim>\<open>None\<close> is written as the empty field. A record that would be empty (one empty
  field) is written as a pair of quotes.
\<close>

definition needs_quoting :: "char \<Rightarrow> bool" where
  "needs_quoting c = (c = COMMA \<or> c = DQ \<or> c = CR \<or> c = LF)"

fun double_quotes :: "string \<Rightarrow> string" where
  "double_quotes [] = []"
| "double_quotes (c # cs) = (if c = DQ then DQ # DQ # double_quotes cs else c # double_quotes cs)"

definition csv_field :: "string option \<Rightarrow> string" where
  "csv_field v =
     (case v of
        None \<Rightarrow> []
      | Some s \<Rightarrow> if list_ex needs_quoting s then DQ # double_quotes s @ [DQ] else s)"

fun join_fields :: "string list \<Rightarrow> string" where
  "join_fields [] = []"
| "join_fields [f] = f"
| "join_fields (f # g # fs) = f @ COMMA # join_fields (g # fs)"

definition csv_record :: "string option list \<Rightarrow> string" where
  "csv_record row =
     (let r = join_fields (map csv_field row)
      in if row \<noteq> [] \<and> r = [] then [DQ, DQ] else r)"

definition writerow :: "string option list \<Rightarrow> string" where
  "writerow row = csv_record row @ [CR, LF]"

text \<open>
  \<^verbatim>\<open>open('jobs.csv', 'a', newline='')\<close>: append mode starts from the content of the file, or
  from the empty content when there is no file yet, and with \<^verbatim>\<open>newline=''\<close> what is
  written is stored as it is.
\<close>

definition open_append :: "filesystem \<Rightarrow> string \<Rightarrow> string" where
  "open_append fs path = (case fs path of None \<Rightarrow> [] | Some content \<Rightarrow> content)"

definition job_row :: "Job \<Rightarrow> string option list" where
  "job_row job = [Some (title job), Some (company job), Some (link job), salary job, location job]"

definition save_jobs :: "Job \<Rightarrow> filesystem \<Rightarrow> string \<times> filesystem" where
  "save_jobs job fs =
     (let f = open_append fs ''jobs.csv'';
          f' = f @ writerow (job_row job)
      in (''Saved job to file'', fs(''jobs.csv'' \<mapsto> f')))"

text \<open>
  \<^verbatim>\<open>open('jobs.csv', 'r')\<close> reads in text mode with universal newlines: \<^verbatim>\<open>\r\n\<close> and a lone
  \<^verbatim>\<open>\r\<close> both come back as \<^verbatim>\<open>\n\<close>. A file that is not there raises FileNotFoundError.
\<close>

fun universal_newlines :: "string \<Rightarrow> string" where
  "universal_newlines [] = []"
| "universal_newlines [c] = (if c = CR then [LF] else [c])"
| "universal_newlines (c # d # cs) =
     (if c = CR then
        (if d = LF then LF # universal_newlines cs else LF # universal_newlines (d # cs))
      else c # universal_newlines (d # cs))"

definition read_jobs :: "filesystem \<Rightarrow> py_exception + string" where
  "read_jobs fs =
     (case fs ''jobs.csv'' of
        None \<Rightarrow> Inl (FileNotFoundError ''jobs.csv'')
      | Some content \<Rightarrow> Inr (universal_newlines content))"

subsection \<open>Decimal text of an integer\<close>

text \<open>What an f-string writes for an \<^verbatim>\<open>int\<close>: decimal digits, a minus sign first when negative.\<close>

definition digit_char :: "nat \<Rightarrow> char" where
  "digit_char d = ''0123456789'' ! d"

fun str_nat :: "nat \<Rightarrow> string" where
  "str_nat n = (if n < 10 then [digit_char n] else str_nat (n div 10) @ [digit_char (n mod 10)])"

declare str_nat.simps [simp del]

definition str_int :: "int \<Rightarrow> string" where
  "str_int i = (if i < 0 then CHR ''-'' # str_nat (nat (- i)) else str_nat (nat i))"

subsection \<open>Action results and the log\<close>

text \<open>
  Modelled from the spec: the class ActionResult of the browser_use package, which the
  script imports, is not among the sources. The spec's data model gives an action result
  an optional extracted content, an optional error and an include-in-memory flag, and its
  login property says that a result built from an error alone has the flag false: the
  texts default to \<^verbatim>\<open>None\<close> and the flag to \<^verbatim>\<open>False\<close>. \<open>ActionResult_default\<close> is
  \<^verbatim>\<open>ActionResult()\<close>; a keyword argument of the constructor is a record update of it.
\<close>

record ActionResult =
  extracted_content :: "string option"
  error :: "string option"
  include_in_memory :: bool

definition ActionResult_default :: ActionResult where
  "ActionResult_default = \<lparr>extracted_content = None, error = None, include_in_memory = False\<rparr>"

text \<open>A record handed to the module's logger: the level of the call and the message.\<close>

datatype level = DEBUG | INFO | ERROR

type_synonym log_record = "level \<times> string"

subsection \<open>Credentials\<close>

text \<open>
  \<^verbatim>\<open>os.getenv\<close> reads the process environment, a map from names to values. \<^verbatim>\<open>not v\<close> holds
  of \<^verbatim>\<open>None\<close> and of the empty string. The password is returned inside a \<open>SecretStr\<close>.
\<close>

type_synonym environ = "string \<rightharpoonup> string"

datatype SecretStr = SecretStr string

definition py_not :: "string option \<Rightarrow> bool" where
  "py_not v = (case v of None \<Rightarrow> True | Some s \<Rightarrow> s = [])"

definition get_linkedin_credentials :: "environ \<Rightarrow> py_exception + string \<times> SecretStr" where
  "get_linkedin_credentials env =
     (let email = env ''linkedin_email'';
          password = env ''linkedin_password''
      in if py_not email \<or> py_not password then Inl ValueError
         else (case (email, password) of
                 (Some e, Some p) \<Rightarrow> Inr (e, SecretStr p)
               | _ \<Rightarrow> Inl ValueError))"

subsection \<open>Reading the resume\<close>

text \<open>
  \<^verbatim>\<open>pdf.pages\<close> is the list of pages, each given by what its \<^verbatim>\<open>extract_text()\<close> returns: a
  text, or \<^verbatim>\<open>None\<close>. \<^verbatim>\<open>x or ''\<close> is \<^verbatim>\<open>x\<close> unless \<^verbatim>\<open>x\<close> is \<^verbatim>\<open>None\<close> or empty. The loop of
  \<^verbatim>\<open>read_cv\<close> carries \<^verbatim>\<open>text\<close> from page to page.
\<close>

definition or_empty :: "string option \<Rightarrow> string" where
  "or_empty x = (case x of None \<Rightarrow> [] | Some t \<Rightarrow> if t = [] then [] else t)"

fun read_pages :: "string \<Rightarrow> string option list \<Rightarrow> string" where
  "read_pages text [] = text"
| "read_pages text (page # pages) = read_pages (text @ or_empty page) pages"

definition read_cv :: "string option list \<Rightarrow> ActionResult \<times> log_record list" where
  "read_cv pages =
     (let text = read_pages [] pages
      in (ActionResult_default\<lparr>extracted_content := Some text, include_in_memory := True\<rparr>,
          [(INFO, ''Read cv with '' @ str_int (int (length text)) @ '' characters'')]))"

subsection \<open>The browser\<close>

text \<open>
  The browser context is outside the script; an action sees it through the answers to its
  calls. A call that can raise inside a \<^verbatim>\<open>try\<close> of the script has one of three outcomes:
  it returns; it raises an instance of \<^verbatim>\<open>Exception\<close>, given by its \<^verbatim>\<open>str(e)\<close>; or it
  raises a \<^verbatim>\<open>BaseException\<close> that is not an \<^verbatim>\<open>Exception\<close> (\<^verbatim>\<open>asyncio.CancelledError\<close>,
  \<^verbatim>\<open>KeyboardInterrupt\<close>, \<^verbatim>\<open>SystemExit\<close>), given by its class name. The handlers of the
  script are \<^verbatim>\<open>except Exception\<close>: they catch the second and let the third pass.

  The calls of the login action are awaited one after the other inside one \<^verbatim>\<open>try\<close>;
  \<open>await\<close> gives the outcome of each. An element handle is named by the selector it was
  waited for. The upload action reads what three lookups return
  (\<^verbatim>\<open>get_file_upload_element\<close> is the method of the DOM element; the lookups stand outside
  the \<^verbatim>\<open>try\<close> and are taken to return) and the outcome of \<^verbatim>\<open>set_input_files\<close>.
\<close>

datatype outcome = Returns | Raises string | RaisesBase string

datatype call =
    Goto string
  | WaitForSelector string
  | Fill string string
  | Click string
  | WaitForNavigation

record ('d, 'e) BrowserContext =
  await :: "call \<Rightarrow> outcome"
  get_dom_element_by_index :: "int \<Rightarrow> 'd option"
  get_file_upload_element :: "'d \<Rightarrow> 'd option"
  get_locate_element :: "'d \<Rightarrow> 'e option"
  set_input_files :: "'e \<Rightarrow> string \<Rightarrow> outcome"

subsection \<open>The login action\<close>

definition submit_selector :: string where
  "submit_selector = ''button[type='' @ [DQ] @ ''submit'' @ [DQ] @ '']''"

definition login_calls :: "string \<Rightarrow> string \<Rightarrow> call list" where
  "login_calls email password =
     [Goto ''https://www.linkedin.com/login'',
      WaitForSelector ''input#username'',
      Fill ''input#username'' email,
      WaitForSelector ''input#password'',
      Fill ''input#password'' password,
      WaitForSelector submit_selector,
      Click submit_selector,
      WaitForNavigation]"

text \<open>The body of the \<^verbatim>\<open>try\<close>: the calls in order, left at the first one that raises.\<close>

fun run_calls :: "(call \<Rightarrow> outcome) \<Rightarrow> call list \<Rightarrow> outcome" where
  "run_calls answer [] = Returns"
| "run_calls answer (c # cs) =
     (case answer c of
        Returns \<Rightarrow> run_calls answer cs
      | Raises e \<Rightarrow> Raises e
      | RaisesBase b \<Rightarrow> RaisesBase b)"

text \<open>
  An action returns its result and the records it logged, or is left by the exception it
  does not catch.
\<close>

definition linkedin_login ::
  "string \<Rightarrow> string \<Rightarrow> ('d, 'e) BrowserContext
     \<Rightarrow> py_exception + ActionResult \<times> log_record list" where
  "linkedin_login email password browser =
     (case run_calls (await browser) (login_calls email password) of
        Returns \<Rightarrow>
          (let msg = ''Successfully logged in to LinkedIn''
           in Inr (ActionResult_default\<lparr>extracted_content := Some msg, include_in_memory := True\<rparr>,
                   [(INFO, msg)]))
      | Raises e \<Rightarrow>
          (let error_msg = ''Failed to login to LinkedIn: '' @ e
           in Inr (ActionResult_default\<lparr>error := Some error_msg\<rparr>, [(ERROR, error_msg)]))
      | RaisesBase b \<Rightarrow> Inl (BaseException b))"

subsection \<open>The upload action\<close>

text \<open>\<open>path\<close> is \<^verbatim>\<open>str(CV.absolute())\<close>, the absolute path of the resume.\<close>

definition upload_cv ::
  "string \<Rightarrow> int \<Rightarrow> ('d, 'e) BrowserContext \<Rightarrow> py_exception + ActionResult \<times> log_record list" where
  "upload_cv path index browser =
     (case get_dom_element_by_index browser index of
        None \<Rightarrow>
          Inr (ActionResult_default\<lparr>error := Some (''No element found at index '' @ str_int index)\<rparr>,
               [])
      | Some dom_el \<Rightarrow>
          (case get_file_upload_element browser dom_el of
             None \<Rightarrow>
               Inr (ActionResult_default
                      \<lparr>error := Some (''No file upload element found at index '' @ str_int index)\<rparr>,
                    [(INFO, ''No file upload element found at index '' @ str_int index)])
           | Some file_upload_dom_el \<Rightarrow>
               (case get_locate_element browser file_upload_dom_el of
                  None \<Rightarrow>
                    Inr (ActionResult_default
                           \<lparr>error := Some (''No file upload element found at index '' @ str_int index)\<rparr>,
                         [(INFO, ''No file upload element found at index '' @ str_int index)])
                | Some file_upload_el \<Rightarrow>
                    (case set_input_files browser file_upload_el path of
                       Returns \<Rightarrow>
                         (let msg = ''Successfully uploaded file '' @ [DQ] @ path @ [DQ]
                                      @ '' to index '' @ str_int index
                          in Inr (ActionResult_default\<lparr>extracted_content := Some msg\<rparr>,
                                  [(INFO, msg)]))
                     | Raises e \<Rightarrow>
                         Inr (ActionResult_default
                                \<lparr>error := Some (''Failed to upload file to index '' @ str_int index)\<rparr>,
                              [(DEBUG, ''Error in set_input_files: '' @ e)])
                     | RaisesBase b \<Rightarrow> Inl (BaseException b)))))"

subsection \<open>Start of the process\<close>

text \<open>
  What the module does when it is run as a script, in the order of its statements:
  \<^verbatim>\<open>load_dotenv()\<close>, the controller, the check that the resume exists (which raises
  FileNotFoundError), the browser, then \<^verbatim>\<open>main\<close>: the chat model, one agent for each of
  the two tasks, and the run of all agents. \<open>os_environ\<close> is the environment once
  \<^verbatim>\<open>load_dotenv()\<close> has run; \<open>cv_exists\<close> is \<^verbatim>\<open>CV.exists()\<close>. The constructors of the
  libraries are taken to return. The result is the list of what was done, and the
  exception that ended the process, if one did.
\<close>

record process =
  os_environ :: environ
  cv_exists :: bool

datatype event =
    LoadDotenv
  | NewController
  | NewBrowser
  | NewChatModel
  | NewAgent string
  | RunAgents "string list"

definition CV_name :: string where
  "CV_name = ''Hsu_Tse_Chun_s_CV_DS.pdf''"

definition ground_task :: string where
  "ground_task =
     ''You are a professional job finder. ''
     @ ''1. Go to www.linkedin.com/login and use the LinkedIn login action with my credentials. ''
     @ ''2. Read my cv with read_cv. ''
     @ ''3. Find an internships and apply them and save them to a file. ''
     @ ''4. need to upload my cv to the application form. ''
     @ ''5. You can search at this role and apply all of them in the list.''
     @ ''search at this role:''"

definition tasks :: "string list" where
  "tasks = [ground_task @ [LF] @ ''data analyst intern'',
            ground_task @ [LF] @ ''data scientist intern'']"

definition main :: "event list" where
  "main = NewChatModel # map NewAgent tasks @ [RunAgents tasks]"

definition program :: "process \<Rightarrow> event list \<times> py_exception option" where
  "program p =
     (if \<not> cv_exists p then ([LoadDotenv, NewController], Some (FileNotFoundError CV_name))
      else ([LoadDotenv, NewController, NewBrowser] @ main, None))"


subsection \<open>The store as it is read back\<close>




subsection \<open>Sample inputs\<close>

text \<open>
  Three jobs, the third with a carriage return in its title, and a page on which element 3
  holds an upload control that can be located, element 4 holds none, and element 5 holds
  one that cannot be located. On \<open>quiet_page\<close> no call raises; on \<open>broken_page\<close> filling the
  password field and assigning the file raise an \<^verbatim>\<open>Exception\<close>; on \<open>cancelled_page\<close> the
  task is cancelled during the wait for navigation and during the assignment of the file.
  On \<open>moved_page\<close> index 4 resolves to the element that \<open>quiet_page\<close> has at index 5.
\<close>

definition job_A :: Job where
  "job_A = \<lparr>title = ''Data analyst intern'', link = ''https://a.example/1'',
            company = ''Acme, Inc.'', fit_score = 0.9, location = None, salary = Some ''1000''\<rparr>"



definition quiet_page :: "(nat, nat) BrowserContext" where
  "quiet_page =
     \<lparr>await = (\<lambda>c. Returns),
      get_dom_element_by_index = (\<lambda>i. if i = 3 then Some 30 else if i = 4 then Some 40
                                       else if i = 5 then Some 50 else None),
      get_file_upload_element = (\<lambda>d. if d = 30 then Some 31 else if d = 50 then Some 51 else None),
      get_locate_element = (\<lambda>d. if d = 31 then Some 32 else None),
      set_input_files = (\<lambda>el path. Returns)\<rparr>"

definition broken_page :: "(nat, nat) BrowserContext" where
  "broken_page =
     quiet_page
       \<lparr>await := (\<lambda>c. if c = Fill ''input#password'' ''pw'' then Raises ''Timeout 30000ms exceeded''
                       else Returns),
        set_input_files := (\<lambda>el path. Raises ''Protocol error'')\<rparr>"

definition cancelled_page :: "(nat, nat) BrowserContext" where
  "cancelled_page =
     quiet_page
       \<lparr>await := (\<lambda>c. if c = WaitForNavigation then RaisesBase ''CancelledError'' else Returns),
        set_input_files := (\<lambda>el path. RaisesBase ''CancelledError'')\<rparr>"

definition moved_page :: "(nat, nat) BrowserContext" where
  "moved_page = quiet_page\<lparr>get_dom_element_by_index := (\<lambda>i. if i = 4 then Some 50 else None)\<rparr>"

section \<open>Properties\<close>

subsection \<open>Auxiliary facts\<close>

lemma read_pages_acc: "read_pages acc pages = acc @ concat (map or_empty pages)"
  by (induction pages arbitrary: acc) simp_all

lemma or_empty_eq: "or_empty x = (case x of None \<Rightarrow> [] | Some t \<Rightarrow> t)"
  by (simp add: or_empty_def split: option.splits)












lemma run_calls_first_raise:
  "i < length cs \<Longrightarrow> (\<forall>j<i. answer (cs ! j) = Returns) \<Longrightarrow> answer (cs ! i) \<noteq> Returns
   \<Longrightarrow> run_calls answer cs = answer (cs ! i)"
proof (induction cs arbitrary: i)
  case Nil
  then show ?case by simp
next
  case (Cons c cs)
  show ?case
  proof (cases i)
    case 0
    with Cons.prems show ?thesis by (cases "answer c") simp_all
  next
    case (Suc k)
    with Cons.prems have "answer c = Returns" by auto
    moreover from Suc Cons.prems have "run_calls answer cs = answer (cs ! k)"
      by (intro Cons.IH [of k]) auto
    ultimately show ?thesis using Suc by simp
  qed
qed

lemma run_calls_all_return:
  "(\<forall>c \<in> set cs. answer c = Returns) \<Longrightarrow> run_calls answer cs = Returns"
  by (induction cs) simp_all

lemma run_calls_not_returns:
  "run_calls answer cs = r \<Longrightarrow> r \<noteq> Returns \<Longrightarrow>
     \<exists>i<length cs. (\<forall>j<i. answer (cs ! j) = Returns) \<and> answer (cs ! i) = r"
proof (induction cs)
  case Nil
  then show ?case by simp
next
  case (Cons c cs)
  show ?case
  proof (cases "answer c = Returns")
    case True
    with Cons obtain i where i: "i < length cs" "\<forall>j<i. answer (cs ! j) = Returns"
      "answer (cs ! i) = r"
      by auto
    have "\<forall>j<Suc i. answer ((c # cs) ! j) = Returns"
      using True i(2) by (auto simp: nth_Cons split: nat.splits)
    with i show ?thesis by (intro exI [of _ "Suc i"]) simp
  next
    case False
    with Cons.prems have "answer c = r" by (cases "answer c") simp_all
    then show ?thesis by (intro exI [of _ 0]) simp
  qed
qed







lemma str_int_digit: "str_int 3 = ''3''" "str_int 4 = ''4''" "str_int 5 = ''5''" "str_int 9 = ''9''"
  by (simp_all add: str_int_def str_nat.simps [of 3] str_nat.simps [of 4] str_nat.simps [of 5]
      str_nat.simps [of 9] digit_char_def)

subsection \<open>The claims\<close>

text \<open>
  C1: the claim is that the process fails with a configuration error, before any other
  component is created and before any agent runs, when a credential variable is unset or
  empty. The code does not do so: \<open>get_linkedin_credentials\<close> raises in such an environment,
  but neither the module body nor \<open>main\<close> calls it. With both variables unset and the
  resume in place, the process creates the controller, the browser, the chat model and
  both agents, runs the agents, and ends without an exception.
\<close>

theorem startup_without_credentials:
  "get_linkedin_credentials [''OPENAI_API_KEY'' \<mapsto> ''sk-test''] = Inl ValueError
   \<and> program \<lparr>os_environ = [''OPENAI_API_KEY'' \<mapsto> ''sk-test''], cv_exists = True\<rparr>
       = ([LoadDotenv, NewController, NewBrowser, NewChatModel,
           NewAgent (ground_task @ [LF] @ ''data analyst intern''),
           NewAgent (ground_task @ [LF] @ ''data scientist intern''),
           RunAgents tasks], None)"
  by (simp add: get_linkedin_credentials_def py_not_def program_def main_def tasks_def)

text \<open>
  C2: for every list of pages, \<open>read_cv\<close> returns the texts of the pages concatenated in page
  order, a page whose extraction gives \<^verbatim>\<open>None\<close> counting as the empty string; the result
  has no error and is kept in memory.
\<close>

theorem read_cv_concatenates_pages:
  "fst (read_cv pages) =
     \<lparr>extracted_content =
        Some (concat (map (\<lambda>page. case page of None \<Rightarrow> [] | Some t \<Rightarrow> t) pages)),
      error = None, include_in_memory = True\<rparr>"
proof -
  have "or_empty = (\<lambda>page. case page of None \<Rightarrow> [] | Some t \<Rightarrow> t)"
    by (rule ext) (simp add: or_empty_eq)
  then show ?thesis
    by (simp add: read_cv_def read_pages_acc ActionResult_default_def Let_def)
qed

theorem read_cv_concatenates_pages_witness:
  "fst (read_cv [Some ''Data '', None, Some ''Scientist'']) =
     \<lparr>extracted_content = Some ''Data Scientist'', error = None, include_in_memory = True\<rparr>"
  using read_cv_concatenates_pages [of "[Some ''Data '', None, Some ''Scientist'']"] by simp






text \<open>
  C5: reading the store when no file jobs.csv exists fails with FileNotFoundError; no
  content, empty or not, is returned in its place.
\<close>

theorem read_jobs_missing_store:
  "fs ''jobs.csv'' = None \<Longrightarrow>
     read_jobs fs = Inl (FileNotFoundError ''jobs.csv'') \<and> read_jobs fs \<noteq> Inr []"
  by (simp add: read_jobs_def)

theorem read_jobs_missing_store_witness:
  "(Map.empty :: filesystem) ''jobs.csv'' = None
   \<and> read_jobs Map.empty = Inl (FileNotFoundError ''jobs.csv'')"
  using read_jobs_missing_store [of Map.empty] by simp

text \<open>
  C6 (amended): the login action awaits eight calls in order (navigation, three waits for a
  selector, two fills, the click on submit, the wait for navigation). Whichever call is the
  first to raise, if what it raises is an \<^verbatim>\<open>Exception\<close> with text e, the action returns an
  error result whose message is ``Failed to login to LinkedIn: '' followed by e, hence not
  empty, with no content and the memory flag false. When no call raises, the action returns
  the success message as content, no error, and the memory flag true.
\<close>

theorem linkedin_login_result:
  "(\<forall>i e. i < length (login_calls email password)
           \<and> (\<forall>j<i. await browser (login_calls email password ! j) = Returns)
           \<and> await browser (login_calls email password ! i) = Raises e
      \<longrightarrow> linkedin_login email password browser =
            Inr (\<lparr>extracted_content = None,
                  error = Some (''Failed to login to LinkedIn: '' @ e),
                  include_in_memory = False\<rparr>,
                 [(ERROR, ''Failed to login to LinkedIn: '' @ e)])
          \<and> ''Failed to login to LinkedIn: '' @ e \<noteq> [])
   \<and> ((\<forall>c \<in> set (login_calls email password). await browser c = Returns)
      \<longrightarrow> linkedin_login email password browser =
            Inr (\<lparr>extracted_content = Some ''Successfully logged in to LinkedIn'',
                  error = None,
                  include_in_memory = True\<rparr>,
                 [(INFO, ''Successfully logged in to LinkedIn'')]))"
proof (intro conjI allI impI)
  fix i e
  assume a: "i < length (login_calls email password)
           \<and> (\<forall>j<i. await browser (login_calls email password ! j) = Returns)
           \<and> await browser (login_calls email password ! i) = Raises e"
  then have "run_calls (await browser) (login_calls email password)
               = await browser (login_calls email password ! i)"
    by (intro run_calls_first_raise) auto
  with a have "run_calls (await browser) (login_calls email password) = Raises e"
    by simp
  then show "linkedin_login email password browser =
            Inr (\<lparr>extracted_content = None,
                  error = Some (''Failed to login to LinkedIn: '' @ e),
                  include_in_memory = False\<rparr>,
                 [(ERROR, ''Failed to login to LinkedIn: '' @ e)])"
    by (simp add: linkedin_login_def ActionResult_default_def Let_def)
  show "''Failed to login to LinkedIn: '' @ e \<noteq> []"
    by simp
next
  assume "\<forall>c \<in> set (login_calls email password). await browser c = Returns"
  then have "run_calls (await browser) (login_calls email password) = Returns"
    by (rule run_calls_all_return)
  then show "linkedin_login email password browser =
            Inr (\<lparr>extracted_content = Some ''Successfully logged in to LinkedIn'',
                  error = None,
                  include_in_memory = True\<rparr>,
                 [(INFO, ''Successfully logged in to LinkedIn'')])"
    by (simp add: linkedin_login_def ActionResult_default_def Let_def)
qed

theorem linkedin_login_result_witness:
  "linkedin_login ''me@example.org'' ''pw'' broken_page
     = Inr (\<lparr>extracted_content = None,
             error = Some ''Failed to login to LinkedIn: Timeout 30000ms exceeded'',
             include_in_memory = False\<rparr>,
            [(ERROR, ''Failed to login to LinkedIn: Timeout 30000ms exceeded'')])
   \<and> linkedin_login ''me@example.org'' ''pw'' quiet_page
     = Inr (\<lparr>extracted_content = Some ''Successfully logged in to LinkedIn'',
             error = None,
             include_in_memory = True\<rparr>,
            [(INFO, ''Successfully logged in to LinkedIn'')])"
proof -
  have step: "(4::nat) < length (login_calls ''me@example.org'' ''pw'')
        \<and> (\<forall>j<4. await broken_page (login_calls ''me@example.org'' ''pw'' ! j) = Returns)
        \<and> await broken_page (login_calls ''me@example.org'' ''pw'' ! 4)
            = Raises ''Timeout 30000ms exceeded''"
    by (simp add: broken_page_def quiet_page_def login_calls_def nth_Cons split: nat.splits)
  have ok: "\<forall>c \<in> set (login_calls ''me@example.org'' ''pw''). await quiet_page c = Returns"
    by (simp add: quiet_page_def)
  from linkedin_login_result [of "''me@example.org''" "''pw''" broken_page] step
  have "linkedin_login ''me@example.org'' ''pw'' broken_page
     = Inr (\<lparr>extracted_content = None,
             error = Some (''Failed to login to LinkedIn: '' @ ''Timeout 30000ms exceeded''),
             include_in_memory = False\<rparr>,
            [(ERROR, ''Failed to login to LinkedIn: '' @ ''Timeout 30000ms exceeded'')])"
    by blast
  moreover from linkedin_login_result [of "''me@example.org''" "''pw''" quiet_page] ok
  have "linkedin_login ''me@example.org'' ''pw'' quiet_page
     = Inr (\<lparr>extracted_content = Some ''Successfully logged in to LinkedIn'',
             error = None,
             include_in_memory = True\<rparr>,
            [(INFO, ''Successfully logged in to LinkedIn'')])"
    by blast
  ultimately show ?thesis by simp
qed

text \<open>
  C6 as stated fails for an exception outside the class \<^verbatim>\<open>Exception\<close>: the handler is
  \<^verbatim>\<open>except Exception\<close>. When the task is cancelled during the wait for navigation, the
  eighth call, the \<^verbatim>\<open>CancelledError\<close> leaves the action and no result is returned.
\<close>

theorem linkedin_login_counterexample:
  "await cancelled_page (login_calls ''me@example.org'' ''pw'' ! 7) = RaisesBase ''CancelledError''
   \<and> linkedin_login ''me@example.org'' ''pw'' cancelled_page = Inl (BaseException ''CancelledError'')"
  by (simp add: linkedin_login_def cancelled_page_def quiet_page_def login_calls_def)




text \<open>
  C8 (amended): when the upload control is located and \<^verbatim>\<open>set_input_files\<close> raises an
  \<^verbatim>\<open>Exception\<close> with text e, \<open>upload_cv\<close> catches it and returns the error
  ``Failed to upload file to index i'', the same for every e; the text e goes to the log
  only, in one record of level DEBUG.
\<close>

theorem upload_cv_assignment_failure:
  "get_dom_element_by_index browser index = Some dom_el \<Longrightarrow>
   get_file_upload_element browser dom_el = Some file_upload_dom_el \<Longrightarrow>
   get_locate_element browser file_upload_dom_el = Some file_upload_el \<Longrightarrow>
   set_input_files browser file_upload_el path = Raises e \<Longrightarrow>
   upload_cv path index browser =
     Inr (\<lparr>extracted_content = None,
           error = Some (''Failed to upload file to index '' @ str_int index),
           include_in_memory = False\<rparr>,
          [(DEBUG, ''Error in set_input_files: '' @ e)])"
  by (simp add: upload_cv_def ActionResult_default_def)

theorem upload_cv_assignment_failure_witness:
  "upload_cv ''/home/me/cv.pdf'' 3 broken_page =
     Inr (\<lparr>extracted_content = None,
           error = Some ''Failed to upload file to index 3'',
           include_in_memory = False\<rparr>,
          [(DEBUG, ''Error in set_input_files: Protocol error'')])"
proof -
  have "get_dom_element_by_index broken_page 3 = Some 30"
    and "get_file_upload_element broken_page 30 = Some 31"
    and "get_locate_element broken_page 31 = Some 32"
    and "set_input_files broken_page 32 ''/home/me/cv.pdf'' = Raises ''Protocol error''"
    by (simp_all add: broken_page_def quiet_page_def)
  from upload_cv_assignment_failure [OF this] show ?thesis
    by (simp add: str_int_digit)
qed

text \<open>
  C8 as stated fails for an exception outside the class \<^verbatim>\<open>Exception\<close>: the handler is
  \<^verbatim>\<open>except Exception\<close>. When the task is cancelled during the assignment of the file, the
  \<^verbatim>\<open>CancelledError\<close> is not caught and no error result is returned.
\<close>

theorem upload_cv_assignment_counterexample:
  "get_dom_element_by_index cancelled_page 3 = Some 30
   \<and> get_file_upload_element cancelled_page 30 = Some 31
   \<and> get_locate_element cancelled_page 31 = Some 32
   \<and> set_input_files cancelled_page 32 ''/home/me/cv.pdf'' = RaisesBase ''CancelledError''
   \<and> upload_cv ''/home/me/cv.pdf'' 3 cancelled_page = Inl (BaseException ''CancelledError'')"
  by (simp add: upload_cv_def cancelled_page_def quiet_page_def)

text \<open>
  C9: the effect of \<open>save_jobs\<close> is determined by the five fields title, company, link,
  salary and location: two jobs that agree on them, whatever their fit scores, give the
  same confirmation and the same store. The fit score is not written.
\<close>

theorem save_jobs_drops_fit_score:
  "title a = title b \<and> company a = company b \<and> link a = link b
   \<and> salary a = salary b \<and> location a = location b
   \<Longrightarrow> save_jobs a fs = save_jobs b fs"
  by (simp add: save_jobs_def job_row_def)

theorem save_jobs_drops_fit_score_witness:
  "save_jobs job_A Map.empty = save_jobs (job_A\<lparr>fit_score := 0.1\<rparr>) Map.empty"
  using save_jobs_drops_fit_score [of job_A "job_A\<lparr>fit_score := 0.1\<rparr>" Map.empty]
  by simp

text \<open>
  C10: for the same index, an element without a nested upload control and an upload control
  that cannot be located give the same result and the same log record: the error
  ``No file upload element found at index i''.
\<close>

theorem upload_cv_same_error:
  "get_dom_element_by_index b1 index = Some d1 \<Longrightarrow>
   get_file_upload_element b1 d1 = None \<Longrightarrow>
   get_dom_element_by_index b2 index = Some d2 \<Longrightarrow>
   get_file_upload_element b2 d2 = Some u2 \<Longrightarrow>
   get_locate_element b2 u2 = None \<Longrightarrow>
   upload_cv path index b1 = upload_cv path index b2
   \<and> upload_cv path index b2 =
        Inr (\<lparr>extracted_content = None,
              error = Some (''No file upload element found at index '' @ str_int index),
              include_in_memory = False\<rparr>,
             [(INFO, ''No file upload element found at index '' @ str_int index)])"
  by (simp add: upload_cv_def ActionResult_default_def)

theorem upload_cv_same_error_witness:
  "upload_cv ''/home/me/cv.pdf'' 4 quiet_page = upload_cv ''/home/me/cv.pdf'' 4 moved_page
   \<and> upload_cv ''/home/me/cv.pdf'' 4 moved_page =
        Inr (\<lparr>extracted_content = None,
              error = Some ''No file upload element found at index 4'',
              include_in_memory = False\<rparr>,
             [(INFO, ''No file upload element found at index 4'')])"
proof -
  have "get_dom_element_by_index quiet_page 4 = Some 40"
    and "get_file_upload_element quiet_page 40 = None"
    and "get_dom_element_by_index moved_page 4 = Some 50"
    and "get_file_upload_element moved_page 50 = Some 51"
    and "get_locate_element moved_page 51 = None"
    by (simp_all add: moved_page_def quiet_page_def)
  from upload_cv_same_error [OF this, of "''/home/me/cv.pdf''"] show ?thesis
    by (simp add: str_int_digit)
qed

subsection \<open>Further properties of the actions\<close>

text \<open>
  X1: the login action returns an error only when one of its eight calls raised an
  \<^verbatim>\<open>Exception\<close>; the message is then the fixed prefix followed by the text of the first
  call that raised.
\<close>

theorem linkedin_login_error_only_from_raise:
  "linkedin_login email password browser = Inr (result, records) \<Longrightarrow> error result = Some m \<Longrightarrow>
     \<exists>i e. i < length (login_calls email password)
         \<and> (\<forall>j<i. await browser (login_calls email password ! j) = Returns)
         \<and> await browser (login_calls email password ! i) = Raises e
         \<and> m = ''Failed to login to LinkedIn: '' @ e"
proof -
  assume r: "linkedin_login email password browser = Inr (result, records)"
    and m: "error result = Some m"
  show ?thesis
  proof (cases "run_calls (await browser) (login_calls email password)")
    case Returns
    with r m show ?thesis
      by (auto simp: linkedin_login_def ActionResult_default_def Let_def)
  next
    case (Raises e)
    with r m have "m = ''Failed to login to LinkedIn: '' @ e"
      by (auto simp: linkedin_login_def ActionResult_default_def Let_def)
    with run_calls_not_returns [OF Raises] show ?thesis by blast
  next
    case (RaisesBase b)
    with r show ?thesis
      by (simp add: linkedin_login_def)
  qed
qed

theorem linkedin_login_error_only_from_raise_witness:
  "linkedin_login ''me@example.org'' ''pw'' broken_page
     = Inr (\<lparr>extracted_content = None,
             error = Some ''Failed to login to LinkedIn: Timeout 30000ms exceeded'',
             include_in_memory = False\<rparr>,
            [(ERROR, ''Failed to login to LinkedIn: Timeout 30000ms exceeded'')])
   \<and> (\<exists>i e. i < length (login_calls ''me@example.org'' ''pw'')
         \<and> await broken_page (login_calls ''me@example.org'' ''pw'' ! i) = Raises e
         \<and> ''Failed to login to LinkedIn: Timeout 30000ms exceeded''
             = ''Failed to login to LinkedIn: '' @ e)"
proof -
  have r: "linkedin_login ''me@example.org'' ''pw'' broken_page
     = Inr (\<lparr>extracted_content = None,
             error = Some ''Failed to login to LinkedIn: Timeout 30000ms exceeded'',
             include_in_memory = False\<rparr>,
            [(ERROR, ''Failed to login to LinkedIn: Timeout 30000ms exceeded'')])"
    by (simp add: linkedin_login_def broken_page_def quiet_page_def login_calls_def
        ActionResult_default_def Let_def)
  have "error \<lparr>extracted_content = None,
             error = Some ''Failed to login to LinkedIn: Timeout 30000ms exceeded'',
             include_in_memory = False\<rparr>
          = Some ''Failed to login to LinkedIn: Timeout 30000ms exceeded''"
    by simp
  from linkedin_login_error_only_from_raise [OF r this] r show ?thesis
    by blast
qed

text \<open>
  X2: if either credential variable, linkedin_email or linkedin_password, is unset or empty
  in the environment, a call of \<open>get_linkedin_credentials\<close> fails with ValueError and
  returns no credentials.
\<close>

theorem get_linkedin_credentials_unset:
  "env ''linkedin_email'' = None \<or> env ''linkedin_email'' = Some []
   \<or> env ''linkedin_password'' = None \<or> env ''linkedin_password'' = Some []
   \<Longrightarrow> get_linkedin_credentials env = Inl ValueError"
  by (auto simp: get_linkedin_credentials_def py_not_def Let_def)

theorem get_linkedin_credentials_unset_witness:
  "[''linkedin_email'' \<mapsto> ''me@example.org'', ''linkedin_password'' \<mapsto> []] ''linkedin_password''
     = Some []
   \<and> get_linkedin_credentials [''linkedin_email'' \<mapsto> ''me@example.org'', ''linkedin_password'' \<mapsto> []]
     = Inl ValueError"
  using get_linkedin_credentials_unset
    [of "[''linkedin_email'' \<mapsto> ''me@example.org'', ''linkedin_password'' \<mapsto> []]"]
  by simp

text \<open>
  X3: after \<open>save_jobs\<close> the store exists: \<open>read_jobs\<close> returns the former content followed by
  the new row, with line ends read as newlines.
\<close>

theorem save_then_read_succeeds:
  "read_jobs (snd (save_jobs job fs)) =
     Inr (universal_newlines (open_append fs ''jobs.csv'' @ writerow (job_row job)))"
  by (simp add: read_jobs_def save_jobs_def Let_def)

text \<open>
  X4: with both credential variables set and not empty, \<open>get_linkedin_credentials\<close> returns
  the two values unchanged, the password wrapped as a secret.
\<close>

theorem get_linkedin_credentials_set:
  "env ''linkedin_email'' = Some email \<Longrightarrow> email \<noteq> [] \<Longrightarrow>
   env ''linkedin_password'' = Some password \<Longrightarrow> password \<noteq> [] \<Longrightarrow>
   get_linkedin_credentials env = Inr (email, SecretStr password)"
  by (simp add: get_linkedin_credentials_def py_not_def)

theorem get_linkedin_credentials_set_witness:
  "get_linkedin_credentials [''linkedin_email'' \<mapsto> ''me@example.org'', ''linkedin_password'' \<mapsto> ''pw'']
     = Inr (''me@example.org'', SecretStr ''pw'')"
  using get_linkedin_credentials_set
    [of "[''linkedin_email'' \<mapsto> ''me@example.org'', ''linkedin_password'' \<mapsto> ''pw'']"
        "''me@example.org''" "''pw''"]
  by simp

text \<open>
  X5: when the resume file does not exist, the process ends with FileNotFoundError after the
  controller is created and before the browser, the chat model or any agent is.
\<close>

theorem program_missing_cv:
  "\<not> cv_exists p \<Longrightarrow>
     program p = ([LoadDotenv, NewController], Some (FileNotFoundError CV_name))"
  by (simp add: program_def)

theorem program_missing_cv_witness:
  "program \<lparr>os_environ = Map.empty, cv_exists = False\<rparr>
     = ([LoadDotenv, NewController], Some (FileNotFoundError CV_name))"
  using program_missing_cv [of "\<lparr>os_environ = Map.empty, cv_exists = False\<rparr>"] by simp

end
